theory Spec2Isabelle
  imports Main
begin

section \<open>Python values, exceptions and the HTTP exchange\<close>

text \<open>
  The embedding follows \<^verbatim>\<open>docs/api/examples/python-client.py\<close>.  Every value that the
  client reads out of a decoded JSON body is a Python object; \<open>json\<close> is the type of those
  objects (\<open>JNull\<close> is Python's \<^verbatim>\<open>None\<close>, \<open>JObj\<close> a \<^verbatim>\<open>dict\<close> given by its items,
  looked up by key).  Floating point numbers are left out: no statement below depends on one.
\<close>

datatype json =
    JNull
  | JBool bool
  | JNum int
  | JStr string
  | JArr "json list"
  | JObj "(string \<times> json) list"

text \<open>Python truthiness, as used by \<^verbatim>\<open>if etag:\<close>, \<^verbatim>\<open>if self.access_token:\<close>,
  \<^verbatim>\<open>if not self.refresh_token:\<close> and \<^verbatim>\<open>... and cached_data\<close>.\<close>

fun truthy :: "json \<Rightarrow> bool" where
  "truthy JNull = False"
| "truthy (JBool b) = b"
| "truthy (JNum n) = (n \<noteq> 0)"
| "truthy (JStr s) = (s \<noteq> [])"
| "truthy (JArr xs) = (xs \<noteq> [])"
| "truthy (JObj kvs) = (kvs \<noteq> [])"

text \<open>
  The exceptions that the code raises itself or provokes in the interpreter.
  \<open>OpenDataAPIError message status_code error_type\<close> is the base class of the file;
  \<open>RateLimitError message retry_after\<close> is its subclass, whose constructor fixes the status
  code 429 and the type tag \<^verbatim>\<open>rate-limit-exceeded\<close>.  \<open>TransportError\<close> stands for whatever
  \<^verbatim>\<open>session.request\<close> raises; \<open>PyException\<close> is a plain \<^verbatim>\<open>Exception(message)\<close>.
\<close>

datatype exn =
    OpenDataAPIError json int json
  | RateLimitError json int
  | JSONDecodeError
  | ValueError string
  | KeyError string
  | TypeError
  | AttributeError
  | TransportError string
  | PyException string

text \<open>\<^verbatim>\<open>isinstance(e, OpenDataAPIError)\<close> together with \<^verbatim>\<open>e.status_code\<close>: \<open>Some\<close> status for
  the two API error classes, \<open>None\<close> for every other exception.\<close>

fun api_status :: "exn \<Rightarrow> int option" where
  "api_status (OpenDataAPIError m st ty) = Some st"
| "api_status (RateLimitError m ra) = Some 429"
| "api_status e = None"

type_synonym 'a res = "exn + 'a"

subsection \<open>Requests and responses\<close>

text \<open>
  A header value of an outgoing request is either a Python object passed on as it is or the
  formatted string \<^verbatim>\<open>f'Bearer {token}'\<close>, kept as \<open>Bearer token\<close>.  \<^verbatim>\<open>urljoin\<close> is left to
  the transport: a request carries the base URL and the relative path.
\<close>

datatype hvalue = Plain json | Bearer json

record request =
  rq_method :: string
  rq_base :: string
  rq_path :: string
  rq_headers :: "string \<rightharpoonup> hvalue"
  rq_json :: "json option"

text \<open>
  A response as the client inspects it: the status code, the headers, and the outcome of
  \<^verbatim>\<open>response.json()\<close> (\<open>None\<close> when decoding raises \<^verbatim>\<open>JSONDecodeError\<close>).
\<close>

record response =
  status_code :: int
  headers :: "(string \<times> string) list"
  json_body :: "json option"

text \<open>
  \<^verbatim>\<open>requests.Response.ok\<close>: the library calls \<^verbatim>\<open>raise_for_status()\<close>, which raises
  exactly for \<^verbatim>\<open>400 <= status_code < 600\<close>; every other status is ``ok'', the 1xx and 3xx
  ranges included.
\<close>

definition ok :: "response \<Rightarrow> bool" where
  "ok r = (\<not> (400 \<le> status_code r \<and> status_code r < 600))"

subsection \<open>Builtins: \<^verbatim>\<open>int(str)\<close>, string formatting, subscripting\<close>

definition is_space :: "char \<Rightarrow> bool" where
  "is_space c = (let n = (of_char c :: nat) in (9 \<le> n \<and> n \<le> 13) \<or> (28 \<le> n \<and> n \<le> 32))"

definition digit_of :: "char \<Rightarrow> nat option" where
  "digit_of c = (let n = (of_char c :: nat) in if 48 \<le> n \<and> n \<le> 57 then Some (n - 48) else None)"

text \<open>Decimal digits in which single underscores may separate digits.\<close>

fun digits_val :: "nat \<Rightarrow> bool \<Rightarrow> string \<Rightarrow> nat option" where
  "digits_val acc prev_digit [] = (if prev_digit then Some acc else None)"
| "digits_val acc prev_digit (c # cs) =
     (if c = CHR ''_'' then (if prev_digit \<and> cs \<noteq> [] then digits_val acc False cs else None)
      else case digit_of c of
             None \<Rightarrow> None
           | Some d \<Rightarrow> digits_val (10 * acc + d) True cs)"

definition strip :: "string \<Rightarrow> string" where
  "strip s = rev (dropWhile is_space (rev (dropWhile is_space s)))"

text \<open>\<^verbatim>\<open>int(s)\<close> on an ASCII string: \<open>None\<close> where Python raises \<^verbatim>\<open>ValueError\<close>.\<close>

definition py_int :: "string \<Rightarrow> int option" where
  "py_int s =
     (case strip s of
        [] \<Rightarrow> None
      | c # cs \<Rightarrow>
          if c = CHR ''-'' then map_option (\<lambda>n. - int n) (digits_val 0 False cs)
          else if c = CHR ''+'' then map_option int (digits_val 0 False cs)
          else map_option int (digits_val 0 False (c # cs)))"

fun show_nat :: "nat \<Rightarrow> string" where
  "show_nat n =
     (if n < 10 then [char_of (48 + n)]
      else show_nat (n div 10) @ [char_of (48 + n mod 10)])"

definition show_int :: "int \<Rightarrow> string" where
  "show_int i = (if i < 0 then CHR ''-'' # show_nat (nat (- i)) else show_nat (nat i))"

text \<open>\<^verbatim>\<open>obj[key]\<close> with a string key: only a dict can be subscripted so.\<close>

fun subscript :: "json \<Rightarrow> string \<Rightarrow> json res" where
  "subscript (JObj kvs) k = (case map_of kvs k of None \<Rightarrow> Inl (KeyError k) | Some v \<Rightarrow> Inr v)"
| "subscript v k = Inl TypeError"

text \<open>\<^verbatim>\<open>d.get(key, default)\<close> on the items of a dict.\<close>

definition dict_get :: "(string \<times> json) list \<Rightarrow> string \<Rightarrow> json \<Rightarrow> json" where
  "dict_get kvs k d = (case map_of kvs k of None \<Rightarrow> d | Some v \<Rightarrow> v)"

text \<open>\<^verbatim>\<open>datetime.fromtimestamp\<close> accepts the seconds of the years 1 to 9999 (bounds given
  for UTC) and raises otherwise.\<close>

definition fromtimestamp :: "int \<Rightarrow> int res" where
  "fromtimestamp t =
     (if - 62135596800 \<le> t \<and> t \<le> 253402300799 then Inr t
      else Inl (ValueError ''year out of range''))"

section \<open>The client\<close>

record rate_limit =
  rl_limit :: "int option"
  rl_remaining :: "int option"
  rl_reset :: "int option"

record client =
  base_url :: string
  access_token :: json
  refresh_token :: json
  rate_limit :: rate_limit

text \<open>
  The surroundings of the client: \<open>send\<close> is \<^verbatim>\<open>session.request\<close>, which answers a request
  with a response or raises, and \<open>pause\<close> is what \<^verbatim>\<open>time.sleep\<close> does to the outside world
  (a server may count the seconds).  Both act on a state \<open>'w\<close> of the outside world.
\<close>

record 'w env =
  send :: "request \<Rightarrow> 'w \<Rightarrow> (string + response) \<times> 'w"
  pause :: "int \<Rightarrow> 'w \<Rightarrow> 'w"

text \<open>The program state: the client object, the outside world, and the log of the
  durations slept so far (oldest first).\<close>

record 'w state =
  cl :: client
  world :: 'w
  slept :: "int list"

text \<open>\<^verbatim>\<open>time.sleep(n)\<close> raises \<^verbatim>\<open>ValueError\<close> on a negative length.\<close>

definition sleep :: "'w env \<Rightarrow> int \<Rightarrow> 'w state \<Rightarrow> unit res \<times> 'w state" where
  "sleep E n s =
     (if n < 0 then (Inl (ValueError ''sleep length must be non-negative''), s)
      else (Inr (), s\<lparr>world := pause E n (world s), slept := slept s @ [n]\<rparr>))"

text \<open>One header of \<^verbatim>\<open>_update_rate_limit\<close>: absent, it leaves the client alone; present, it is
  converted (which may raise) and stored.\<close>

definition set_from_header ::
  "response \<Rightarrow> string \<Rightarrow> (string \<Rightarrow> int res) \<Rightarrow> (int \<Rightarrow> client \<Rightarrow> client) \<Rightarrow> client
     \<Rightarrow> unit res \<times> client" where
  "set_from_header r name conv store c =
     (case map_of (headers r) name of
        None \<Rightarrow> (Inr (), c)
      | Some v \<Rightarrow> (case conv v of Inl e \<Rightarrow> (Inl e, c) | Inr n \<Rightarrow> (Inr (), store n c)))"

definition int_of_header :: "string \<Rightarrow> int res" where
  "int_of_header v =
     (case py_int v of None \<Rightarrow> Inl (ValueError ''invalid literal for int()'') | Some n \<Rightarrow> Inr n)"

definition update_rate_limit :: "response \<Rightarrow> client \<Rightarrow> unit res \<times> client" where
  "update_rate_limit r c =
     (case set_from_header r ''X-RateLimit-Limit'' int_of_header
             (\<lambda>n c. c\<lparr>rate_limit := (rate_limit c)\<lparr>rl_limit := Some n\<rparr>\<rparr>) c of
        (Inl e, c1) \<Rightarrow> (Inl e, c1)
      | (Inr _, c1) \<Rightarrow>
     (case set_from_header r ''X-RateLimit-Remaining'' int_of_header
             (\<lambda>n c. c\<lparr>rate_limit := (rate_limit c)\<lparr>rl_remaining := Some n\<rparr>\<rparr>) c1 of
        (Inl e, c2) \<Rightarrow> (Inl e, c2)
      | (Inr _, c2) \<Rightarrow>
          set_from_header r ''X-RateLimit-Reset''
             (\<lambda>v. case int_of_header v of Inl e \<Rightarrow> Inl e | Inr n \<Rightarrow> fromtimestamp n)
             (\<lambda>n c. c\<lparr>rate_limit := (rate_limit c)\<lparr>rl_reset := Some n\<rparr>\<rparr>) c2))"

text \<open>The \<^verbatim>\<open>try\<close> block of \<^verbatim>\<open>_request\<close> that reads the message and the type tag of an error
  response; \<^verbatim>\<open>.get\<close> exists on a dict only, and only \<^verbatim>\<open>JSONDecodeError\<close> is caught.\<close>

definition error_fields :: "response \<Rightarrow> (json \<times> json) res" where
  "error_fields r =
     (case json_body r of
        None \<Rightarrow> Inr (JStr (''HTTP '' @ show_int (status_code r) @ '' Error''), JStr '''')
      | Some (JObj kvs) \<Rightarrow>
          Inr (dict_get kvs ''detail'' (dict_get kvs ''title'' (JStr ''Unknown error'')),
               dict_get kvs ''type'' (JStr ''''))
      | Some _ \<Rightarrow> Inl AttributeError)"

text \<open>\<^verbatim>\<open>int(response.headers.get('Retry-After', 60))\<close>.\<close>

definition retry_after_of :: "response \<Rightarrow> int res" where
  "retry_after_of r =
     (case map_of (headers r) ''Retry-After'' of
        None \<Rightarrow> Inr 60
      | Some v \<Rightarrow> int_of_header v)"

definition lstrip_slash :: "string \<Rightarrow> string" where
  "lstrip_slash p = dropWhile (\<lambda>c. c = CHR ''/'') p"

text \<open>What \<^verbatim>\<open>_request\<close> does with a response once the rate limit has been updated.\<close>

definition dispatch :: "response \<Rightarrow> json res" where
  "dispatch r =
     (if ok r then
        (if status_code r = 204 then Inr JNull
         else case json_body r of None \<Rightarrow> Inl JSONDecodeError | Some v \<Rightarrow> Inr v)
      else
        (case error_fields r of
           Inl e \<Rightarrow> Inl e
         | Inr (msg, ty) \<Rightarrow>
             if status_code r = 429 then
               (case retry_after_of r of
                  Inl e \<Rightarrow> Inl e
                | Inr ra \<Rightarrow> Inl (RateLimitError msg ra))
             else Inl (OpenDataAPIError msg (status_code r) ty)))"

text \<open>The request that \<^verbatim>\<open>_request\<close> hands to the session: the caller's headers, the content
  type, and the bearer token when the access token is truthy.\<close>

definition build_request ::
  "client \<Rightarrow> string \<Rightarrow> string \<Rightarrow> (string \<rightharpoonup> hvalue) \<Rightarrow> json option \<Rightarrow> request" where
  "build_request c meth path hdrs payload =
     (let h1 = hdrs(''Content-Type'' \<mapsto> Plain (JStr ''application/json''));
          h2 = (if truthy (access_token c)
                then h1(''Authorization'' \<mapsto> Bearer (access_token c)) else h1)
      in \<lparr>rq_method = meth, rq_base = base_url c, rq_path = lstrip_slash path,
          rq_headers = h2, rq_json = payload\<rparr>)"

definition request ::
  "'w env \<Rightarrow> string \<Rightarrow> string \<Rightarrow> (string \<rightharpoonup> hvalue) \<Rightarrow> json option \<Rightarrow> 'w state
     \<Rightarrow> json res \<times> 'w state" where
  "request E meth path hdrs payload s =
     (case send E (build_request (cl s) meth path hdrs payload) (world s) of
        (Inl msg, w) \<Rightarrow> (Inl (TransportError msg), s\<lparr>world := w\<rparr>)
      | (Inr r, w) \<Rightarrow>
          (case update_rate_limit r (cl s) of
             (Inl e, c) \<Rightarrow> (Inl e, s\<lparr>cl := c, world := w\<rparr>)
           | (Inr _, c) \<Rightarrow> (dispatch r, s\<lparr>cl := c, world := w\<rparr>)))"


text \<open>\<^verbatim>\<open>get_data(path, etag)\<close>; the default \<^verbatim>\<open>etag=None\<close> is \<open>JNull\<close>.  The handler catches
  the API error classes only.\<close>

definition get_data ::
  "'w env \<Rightarrow> string \<Rightarrow> json \<Rightarrow> 'w state \<Rightarrow> (json \<times> json) res \<times> 'w state" where
  "get_data E path etag s =
     (let hdrs = (if truthy etag then [''If-None-Match'' \<mapsto> Plain etag] else Map.empty) in
      case request E ''GET'' (''/data/'' @ path) hdrs None s of
        (Inr resp, s1) \<Rightarrow>
          (case subscript resp ''data'' of
             Inl e \<Rightarrow> (Inl e, s1)
           | Inr d \<Rightarrow>
               (case subscript resp ''metadata'' of
                  Inl e \<Rightarrow> (Inl e, s1)
                | Inr m \<Rightarrow>
                    (case subscript m ''etag'' of
                       Inl e \<Rightarrow> (Inl e, s1)
                     | Inr t \<Rightarrow> (Inr (d, t), s1))))
      | (Inl e, s1) \<Rightarrow>
          (if api_status e = Some 304 then (Inr (JNull, etag), s1) else (Inl e, s1)))"

definition logout :: "'w env \<Rightarrow> 'w state \<Rightarrow> unit res \<times> 'w state" where
  "logout E s =
     (case request E ''POST'' ''/auth/logout'' Map.empty None s of
        (Inl e, s1) \<Rightarrow> (Inl e, s1)
      | (Inr _, s1) \<Rightarrow>
          (Inr (), s1\<lparr>cl := (cl s1)\<lparr>access_token := JNull, refresh_token := JNull\<rparr>\<rparr>))"

text \<open>The health checks: the \<^verbatim>\<open>finally\<close> clause runs on the normal and on the exceptional
  exit of \<^verbatim>\<open>_request\<close>.\<close>

definition check_health :: "'w env \<Rightarrow> 'w state \<Rightarrow> json res \<times> 'w state" where
  "check_health E s =
     (let token = access_token (cl s);
          s0 = s\<lparr>cl := (cl s)\<lparr>access_token := JNull\<rparr>\<rparr>
      in case request E ''GET'' ''/../health'' Map.empty None s0 of
           (r, s1) \<Rightarrow> (r, s1\<lparr>cl := (cl s1)\<lparr>access_token := token\<rparr>\<rparr>))"

definition check_detailed_health :: "'w env \<Rightarrow> 'w state \<Rightarrow> json res \<times> 'w state" where
  "check_detailed_health E s =
     (let token = access_token (cl s);
          s0 = s\<lparr>cl := (cl s)\<lparr>access_token := JNull\<rparr>\<rparr>
      in case request E ''GET'' ''/../health/detailed'' Map.empty None s0 of
           (r, s1) \<Rightarrow> (r, s1\<lparr>cl := (cl s1)\<lparr>access_token := token\<rparr>\<rparr>))"

section \<open>The retry wrapper\<close>





section \<open>The batch fetcher\<close>

text \<open>An entry of \<^verbatim>\<open>results\<close>: \<open>Success path data etag\<close> is the dict with
  \<^verbatim>\<open>'success': True\<close>, \<open>Failure path error\<close> the one with \<^verbatim>\<open>'success': False\<close>.\<close>

datatype outcome = Success string json json | Failure string string


fun out_success :: "outcome \<Rightarrow> bool" where
  "out_success (Success p d t) = True"
| "out_success (Failure p m) = False"

text \<open>The body of the inner loop.  \<^verbatim>\<open>except Exception\<close> catches every exception of the
  model; \<open>py_str\<close> is Python's \<^verbatim>\<open>str\<close> on exceptions, taken as a parameter.\<close>

definition fetch_one ::
  "'w env \<Rightarrow> (exn \<Rightarrow> string) \<Rightarrow> string \<Rightarrow> 'w state \<Rightarrow> outcome \<times> 'w state" where
  "fetch_one E py_str path s =
     (case get_data E path JNull s of
        (Inr (d, t), s1) \<Rightarrow> (Success path d t, s1)
      | (Inl e, s1) \<Rightarrow> (Failure path (py_str e), s1))"

text \<open>\<^verbatim>\<open>for path in batch\<close>, appending to \<^verbatim>\<open>results\<close>.\<close>

fun fetch_batch ::
  "'w env \<Rightarrow> (exn \<Rightarrow> string) \<Rightarrow> string list \<Rightarrow> outcome list \<Rightarrow> 'w state
     \<Rightarrow> outcome list \<times> 'w state" where
  "fetch_batch E py_str [] results s = (results, s)"
| "fetch_batch E py_str (path # batch) results s =
     (case fetch_one E py_str path s of
        (r, s1) \<Rightarrow> fetch_batch E py_str batch (results @ [r]) s1)"

text \<open>The condition of the \<^verbatim>\<open>if\<close> that follows a group, for the group starting at
  index \<open>i\<close>.\<close>

definition low_headroom :: "string list \<Rightarrow> nat \<Rightarrow> nat \<Rightarrow> 'w state \<Rightarrow> bool" where
  "low_headroom paths batch_size i s =
     (case rl_remaining (rate_limit (cl s)) of
        None \<Rightarrow> False
      | Some r \<Rightarrow> r < 10 \<and> i + batch_size < length paths)"

text \<open>The statement that follows a group: sleep five seconds or do nothing.\<close>

definition after_group ::
  "'w env \<Rightarrow> string list \<Rightarrow> nat \<Rightarrow> nat \<Rightarrow> 'w state \<Rightarrow> unit res \<times> 'w state" where
  "after_group E paths batch_size i s =
     (if low_headroom paths batch_size i s then sleep E 5 s else (Inr (), s))"

text \<open>\<^verbatim>\<open>for i in range(0, len(paths), batch_size)\<close> with a positive step, from index \<open>i\<close>
  on; the batch is the slice \<^verbatim>\<open>paths[i:i + batch_size]\<close>.\<close>

function fetch_groups ::
  "'w env \<Rightarrow> (exn \<Rightarrow> string) \<Rightarrow> string list \<Rightarrow> nat \<Rightarrow> nat \<Rightarrow> outcome list \<Rightarrow> 'w state
     \<Rightarrow> outcome list res \<times> 'w state" where
  "fetch_groups E py_str paths batch_size i results s =
     (if 0 < batch_size \<and> i < length paths then
        (case fetch_batch E py_str (take batch_size (drop i paths)) results s of
           (results1, s1) \<Rightarrow>
             (case after_group E paths batch_size i s1 of
                (Inl e, s2) \<Rightarrow> (Inl e, s2)
              | (Inr _, s2) \<Rightarrow> fetch_groups E py_str paths batch_size (i + batch_size) results1 s2))
      else (Inr results, s))"
  by pat_completeness auto
termination
  by (relation "measure (\<lambda>(E, py_str, paths, batch_size, i, results, s). length paths - i)") auto

text \<open>\<^verbatim>\<open>range\<close> raises on a step of zero and is empty for a negative step (the start 0 is
  not above \<^verbatim>\<open>len(paths)\<close>).\<close>

definition fetch_multiple_data ::
  "'w env \<Rightarrow> (exn \<Rightarrow> string) \<Rightarrow> string list \<Rightarrow> int \<Rightarrow> 'w state
     \<Rightarrow> outcome list res \<times> 'w state" where
  "fetch_multiple_data E py_str paths batch_size s =
     (if batch_size = 0 then (Inl (ValueError ''range() arg 3 must not be zero''), s)
      else if batch_size < 0 then (Inr [], s)
      else fetch_groups E py_str paths (nat batch_size) 0 [] s)"

section \<open>The cache wrapper\<close>

text \<open>\<^verbatim>\<open>self.cache\<close>: path to (data, etag).\<close>

type_synonym cache = "string \<rightharpoonup> json \<times> json"

text \<open>\<^verbatim>\<open>CachedDataFetcher.get\<close>, returning the cache as the call leaves it.  In the branch
  that deletes, \<^verbatim>\<open>cached_data\<close> is truthy, so the entry exists and \<^verbatim>\<open>del\<close> cannot raise.\<close>

definition CachedDataFetcher_get ::
  "'w env \<Rightarrow> string \<Rightarrow> cache \<Rightarrow> 'w state \<Rightarrow> json res \<times> cache \<times> 'w state" where
  "CachedDataFetcher_get E path cache s =
     (case (case cache path of None \<Rightarrow> (JNull, JNull) | Some entry \<Rightarrow> entry) of
        (cached_data, cached_etag) \<Rightarrow>
          (case get_data E path cached_etag s of
             (Inr (d, etag), s1) \<Rightarrow>
               if d = JNull then (Inr cached_data, cache, s1)
               else (Inr d, cache(path \<mapsto> (d, etag)), s1)
           | (Inl e, s1) \<Rightarrow>
               if api_status e = Some 404 \<and> truthy cached_data
               then (Inl e, cache(path := None), s1)
               else (Inl e, cache, s1)))"

section \<open>A scripted server\<close>

text \<open>An outside world for concrete runs: the replies still to be given, one per request
  whatever the request is; when the script is over the connection fails.  Sleeping does not
  change it.\<close>

definition scripted :: "(string + response) list env" where
  "scripted =
     \<lparr>send = (\<lambda>rq w. case w of [] \<Rightarrow> (Inl ''connection refused'', []) | r # rs \<Rightarrow> (r, rs)),
      pause = (\<lambda>n w. w)\<rparr>"

definition reply :: "int \<Rightarrow> (string \<times> string) list \<Rightarrow> json option \<Rightarrow> string + response" where
  "reply st hs b = Inr \<lparr>status_code = st, headers = hs, json_body = b\<rparr>"

definition client0 :: client where
  "client0 =
     \<lparr>base_url = ''http://localhost:3000/api/v1'',
      access_token = JStr ''your-access-token'',
      refresh_token = JStr ''your-refresh-token'',
      rate_limit = \<lparr>rl_limit = None, rl_remaining = None, rl_reset = None\<rparr>\<rparr>"

definition start :: "(string + response) list \<Rightarrow> (string + response) list state" where
  "start script = \<lparr>cl = client0, world = script, slept = []\<rparr>"

section \<open>Conditions on a response\<close>



section \<open>Concrete runs and the record of a path\<close>

text \<open>Python's \<^verbatim>\<open>str\<close> on the exceptions of the concrete runs below: the message of an
  API error whose message is a string.\<close>

fun str_of_exn :: "exn \<Rightarrow> string" where
  "str_of_exn (OpenDataAPIError (JStr m) st ty) = m"
| "str_of_exn (RateLimitError (JStr m) ra) = m"
| "str_of_exn e = ''exception''"

text \<open>What \<^verbatim>\<open>results\<close> gains from one path: the record of one call of \<^verbatim>\<open>get_data\<close> on that
  path, a failure with the text of the exception when the call raised.\<close>

definition recorded :: "'w env \<Rightarrow> (exn \<Rightarrow> string) \<Rightarrow> string \<Rightarrow> outcome \<Rightarrow> bool" where
  "recorded E py_str path out =
     (\<exists>s. case fst (get_data E path JNull s) of
             Inl e \<Rightarrow> out = Failure path (py_str e)
           | Inr (d, t) \<Rightarrow> out = Success path d t)"

section \<open>What a request leaves alone\<close>

text \<open>\<^verbatim>\<open>_update_rate_limit\<close> writes to \<^verbatim>\<open>self.rate_limit\<close> only, also when it raises half-way.\<close>

lemma update_rate_limit_frame:
  "access_token (snd (update_rate_limit r c)) = access_token c
   \<and> refresh_token (snd (update_rate_limit r c)) = refresh_token c
   \<and> base_url (snd (update_rate_limit r c)) = base_url c"
  unfolding update_rate_limit_def
  by (auto simp: set_from_header_def split: option.splits sum.splits prod.splits)

text \<open>\<^verbatim>\<open>_request\<close> neither touches the credentials nor sleeps, whatever its outcome.\<close>

lemma request_frame:
  "access_token (cl (snd (request E meth path hdrs payload s))) = access_token (cl s)
   \<and> refresh_token (cl (snd (request E meth path hdrs payload s))) = refresh_token (cl s)
   \<and> base_url (cl (snd (request E meth path hdrs payload s))) = base_url (cl s)
   \<and> slept (snd (request E meth path hdrs payload s)) = slept s"
proof -
  define rq where "rq = build_request (cl s) meth path hdrs payload"
  obtain a w where sd: "send E rq (world s) = (a, w)"
    by (cases "send E rq (world s)") auto
  show ?thesis
  proof (cases a)
    case (Inl msg)
    with sd show ?thesis by (simp add: request_def rq_def)
  next
    case (Inr r)
    obtain u c where u: "update_rate_limit r (cl s) = (u, c)"
      by (cases "update_rate_limit r (cl s)") auto
    with update_rate_limit_frame[of r "cl s"] have
      "access_token c = access_token (cl s) \<and> refresh_token c = refresh_token (cl s)
       \<and> base_url c = base_url (cl s)" by simp
    with sd Inr u show ?thesis by (cases u) (simp_all add: request_def rq_def)
  qed
qed

section \<open>Health checks and logout\<close>

text \<open>
  Claim C9.  Whatever the state and the surroundings, and whether \<^verbatim>\<open>check_health\<close> or
  \<^verbatim>\<open>check_detailed_health\<close> returns a value or raises, the access token and the refresh
  token stored in the client after the call are the ones stored before it.
\<close>

theorem check_health_keeps_credentials:
  "access_token (cl (snd (check_health E s))) = access_token (cl s)
   \<and> refresh_token (cl (snd (check_health E s))) = refresh_token (cl s)
   \<and> access_token (cl (snd (check_detailed_health E s))) = access_token (cl s)
   \<and> refresh_token (cl (snd (check_detailed_health E s))) = refresh_token (cl s)"
  using request_frame[of E "''GET''" "''/../health''" Map.empty None
          "s\<lparr>cl := (cl s)\<lparr>access_token := JNull\<rparr>\<rparr>"]
        request_frame[of E "''GET''" "''/../health/detailed''" Map.empty None
          "s\<lparr>cl := (cl s)\<lparr>access_token := JNull\<rparr>\<rparr>"]
  by (simp add: check_health_def check_detailed_health_def Let_def split_beta)

text \<open>
  Claim C10.  If the request that notifies the server of the logout raises \<open>e\<close>, then
  \<^verbatim>\<open>logout\<close> raises \<open>e\<close> and both stored tokens are what they were before the call; if that
  request returns, \<^verbatim>\<open>logout\<close> returns and both stored tokens are \<^verbatim>\<open>None\<close>.
\<close>

theorem logout_clears_tokens_only_on_success:
  "(fst (request E ''POST'' ''/auth/logout'' Map.empty None s) = Inl e \<longrightarrow>
      fst (logout E s) = Inl e
      \<and> access_token (cl (snd (logout E s))) = access_token (cl s)
      \<and> refresh_token (cl (snd (logout E s))) = refresh_token (cl s))
   \<and> (fst (request E ''POST'' ''/auth/logout'' Map.empty None s) = Inr v \<longrightarrow>
      fst (logout E s) = Inr ()
      \<and> access_token (cl (snd (logout E s))) = JNull
      \<and> refresh_token (cl (snd (logout E s))) = JNull)"
  using request_frame[of E "''POST''" "''/auth/logout''" Map.empty None s]
  by (cases "request E ''POST'' ''/auth/logout'' Map.empty None s") (auto simp: logout_def)

theorem logout_clears_tokens_only_on_success_witness:
  "fst (request scripted ''POST'' ''/auth/logout'' Map.empty None (start [reply 500 [] None]))
     = Inl (OpenDataAPIError (JStr ''HTTP 500 Error'') 500 (JStr ''''))
   \<and> fst (logout scripted (start [reply 500 [] None]))
     = Inl (OpenDataAPIError (JStr ''HTTP 500 Error'') 500 (JStr ''''))
   \<and> access_token (cl (snd (logout scripted (start [reply 500 [] None]))))
     = JStr ''your-access-token''
   \<and> refresh_token (cl (snd (logout scripted (start [reply 500 [] None]))))
     = JStr ''your-refresh-token''
   \<and> fst (request scripted ''POST'' ''/auth/logout'' Map.empty None (start [reply 204 [] None]))
     = Inr JNull
   \<and> fst (logout scripted (start [reply 204 [] None])) = Inr ()
   \<and> access_token (cl (snd (logout scripted (start [reply 204 [] None])))) = JNull
   \<and> refresh_token (cl (snd (logout scripted (start [reply 204 [] None])))) = JNull"
proof -
  have fails:
    "fst (request scripted ''POST'' ''/auth/logout'' Map.empty None (start [reply 500 [] None]))
       = Inl (OpenDataAPIError (JStr ''HTTP 500 Error'') 500 (JStr ''''))"
    by code_simp
  have succeeds:
    "fst (request scripted ''POST'' ''/auth/logout'' Map.empty None (start [reply 204 [] None]))
       = Inr JNull"
    by code_simp
  have before:
    "access_token (cl (start [reply 500 [] None])) = JStr ''your-access-token''
     \<and> refresh_token (cl (start [reply 500 [] None])) = JStr ''your-refresh-token''"
    by (simp add: start_def client0_def)
  from fails succeeds before
    logout_clears_tokens_only_on_success
      [of scripted "start [reply 500 [] None]"
          "OpenDataAPIError (JStr ''HTTP 500 Error'') 500 (JStr '''')" JNull]
    logout_clears_tokens_only_on_success
      [of scripted "start [reply 204 [] None]"
          "OpenDataAPIError (JStr ''HTTP 500 Error'') 500 (JStr '''')" JNull]
  show ?thesis by simp
qed

section \<open>The outcomes of a request\<close>

text \<open>An exception out of \<^verbatim>\<open>_update_rate_limit\<close> is never one of the API error classes.\<close>

lemma update_rate_limit_error:
  "fst (update_rate_limit r c) = Inl e \<Longrightarrow> api_status e = None"
  unfolding update_rate_limit_def
  by (auto simp: set_from_header_def int_of_header_def fromtimestamp_def
           split: option.splits sum.splits prod.splits if_splits)

lemma dispatch_error_status:
  "dispatch r = Inl e \<Longrightarrow> api_status e = Some st \<Longrightarrow> st = status_code r \<and> \<not> ok r"
  by (auto simp: dispatch_def error_fields_def retry_after_of_def int_of_header_def
           split: if_splits option.splits sum.splits prod.splits json.splits)

lemma request_cases:
  "(\<exists>msg. fst (request E meth path hdrs payload s) = Inl (TransportError msg))
   \<or> (\<exists>r. fst (send E (build_request (cl s) meth path hdrs payload) (world s)) = Inr r
          \<and> ((\<exists>e. fst (update_rate_limit r (cl s)) = Inl e
                  \<and> fst (request E meth path hdrs payload s) = Inl e)
             \<or> (fst (update_rate_limit r (cl s)) = Inr ()
                  \<and> fst (request E meth path hdrs payload s) = dispatch r)))"
  by (auto simp: request_def split: prod.splits sum.splits)



text \<open>An API error raised by \<^verbatim>\<open>_request\<close> carries a status from 400 to 599: no other
  status reaches the error branch.\<close>

lemma request_error_status:
  assumes "fst (request E meth path hdrs payload s) = Inl e" and "api_status e = Some st"
  shows "400 \<le> st \<and> st < 600"
proof -
  from request_cases[of E meth path hdrs payload s] assms(1)
  consider (transport) msg where "e = TransportError msg"
    | (headers) r where "fst (update_rate_limit r (cl s)) = Inl e"
    | (dispatch) r where "dispatch r = Inl e"
    by auto
  then show ?thesis
  proof cases
    case transport
    with assms(2) show ?thesis by simp
  next
    case headers
    from update_rate_limit_error[OF this] assms(2) show ?thesis by simp
  next
    case dispatch
    from dispatch_error_status[OF this assms(2)] show ?thesis by (auto simp: ok_def)
  qed
qed

text \<open>Hence the \<^verbatim>\<open>except\<close> clause of \<^verbatim>\<open>get_data\<close> never returns: whatever \<^verbatim>\<open>_request\<close>
  raises is raised by \<^verbatim>\<open>get_data\<close> too.\<close>

lemma get_data_handler_dead:
  "get_data E path etag s =
     (case request E ''GET'' (''/data/'' @ path)
             (if truthy etag then [''If-None-Match'' \<mapsto> Plain etag] else Map.empty) None s of
        (Inr resp, s1) \<Rightarrow>
          (case subscript resp ''data'' of
             Inl e \<Rightarrow> (Inl e, s1)
           | Inr d \<Rightarrow>
               (case subscript resp ''metadata'' of
                  Inl e \<Rightarrow> (Inl e, s1)
                | Inr m \<Rightarrow>
                    (case subscript m ''etag'' of
                       Inl e \<Rightarrow> (Inl e, s1)
                     | Inr t \<Rightarrow> (Inr (d, t), s1))))
      | (Inl e, s1) \<Rightarrow> (Inl e, s1))"
proof -
  let ?h = "if truthy etag then [''If-None-Match'' \<mapsto> Plain etag] else Map.empty"
  obtain a s1 where rq: "request E ''GET'' (''/data/'' @ path) ?h None s = (a, s1)"
    by (cases "request E ''GET'' (''/data/'' @ path) ?h None s") auto
  show ?thesis
  proof (cases a)
    case (Inl e)
    with rq request_error_status[of E "''GET''" "''/data/'' @ path" ?h None s e 304]
    have "api_status e \<noteq> Some 304" by auto
    with rq Inl show ?thesis by (simp add: get_data_def Let_def)
  next
    case (Inr v)
    with rq show ?thesis by (simp add: get_data_def Let_def)
  qed
qed

text \<open>
  Claim C1, at the input of the scenario: \<^verbatim>\<open>get_data('a/b.json', 'etag1')\<close> against a server
  that answers 304 with an empty body.  Status 304 is ``ok'' for the library, so \<^verbatim>\<open>_request\<close>
  decodes the body instead of raising an API error, and \<^verbatim>\<open>get_data\<close> raises
  \<^verbatim>\<open>JSONDecodeError\<close> where the claim has it return \<^verbatim>\<open>(None, 'etag1')\<close>.
\<close>

theorem get_data_not_modified_raises:
  "fst (get_data scripted ''a/b.json'' (JStr ''etag1'') (start [reply 304 [] None]))
     = Inl JSONDecodeError"
  by code_simp







section \<open>The retry wrapper: refresh on 401, wait on 429, exhaustion\<close>








section \<open>The cache wrapper on a 404\<close>

text \<open>When the cached data is truthy, a 404 removes the entry and is raised.\<close>

lemma CachedDataFetcher_get_evicts_truthy:
  assumes "cache path = Some (cached_data, cached_etag)" and "truthy cached_data"
      and "get_data E path cached_etag s = (Inl e, s1)" and "api_status e = Some 404"
  shows "CachedDataFetcher_get E path cache s = (Inl e, cache(path := None), s1)"
  using assms by (simp add: CachedDataFetcher_get_def)

text \<open>When the cached data is falsy, a 404 is raised and the entry stays.\<close>

lemma CachedDataFetcher_get_keeps_falsy:
  assumes "cache path = Some (cached_data, cached_etag)" and "\<not> truthy cached_data"
      and "get_data E path cached_etag s = (Inl e, s1)"
  shows "CachedDataFetcher_get E path cache s = (Inl e, cache, s1)"
  using assms by (simp add: CachedDataFetcher_get_def)

text \<open>
  Claim C5, at a failing input.  A \<^verbatim>\<open>get('x')\<close> that is answered 200 with the data \<^verbatim>\<open>[]\<close>
  and the etag \<^verbatim>\<open>e1\<close> stores the entry \<^verbatim>\<open>([], 'e1')\<close> for \<^verbatim>\<open>'x'\<close>.  With that entry in the
  cache, a \<^verbatim>\<open>get('x')\<close> that is answered 404 raises the 404 error and leaves the entry where
  it is: the guard \<^verbatim>\<open>and cached_data\<close> tests the truth value of the cached data, and an empty
  list is false.
\<close>

theorem cache_keeps_falsy_entry_on_404:
  "fst (CachedDataFetcher_get scripted ''x'' Map.empty
          (start [reply 200 [] (Some (JObj [(''data'', JArr []),
                                            (''metadata'', JObj [(''etag'', JStr ''e1'')])])),
                  reply 404 [] (Some (JObj [(''detail'', JStr ''Not found'')]))]))
     = Inr (JArr [])
   \<and> fst (snd (CachedDataFetcher_get scripted ''x'' Map.empty
          (start [reply 200 [] (Some (JObj [(''data'', JArr []),
                                            (''metadata'', JObj [(''etag'', JStr ''e1'')])])),
                  reply 404 [] (Some (JObj [(''detail'', JStr ''Not found'')]))]))) ''x''
     = Some (JArr [], JStr ''e1'')
   \<and> fst (CachedDataFetcher_get scripted ''x'' [''x'' \<mapsto> (JArr [], JStr ''e1'')]
          (start [reply 404 [] (Some (JObj [(''detail'', JStr ''Not found'')]))]))
     = Inl (OpenDataAPIError (JStr ''Not found'') 404 (JStr ''''))
   \<and> fst (snd (CachedDataFetcher_get scripted ''x'' [''x'' \<mapsto> (JArr [], JStr ''e1'')]
          (start [reply 404 [] (Some (JObj [(''detail'', JStr ''Not found'')]))]))) ''x''
     = Some (JArr [], JStr ''e1'')"
  by code_simp

section \<open>The batch fetcher: one outcome per path, pauses between groups\<close>

lemma get_data_slept: "slept (snd (get_data E path etag s)) = slept s"
proof -
  let ?h = "if truthy etag then [''If-None-Match'' \<mapsto> Plain etag] else Map.empty"
  obtain a s1 where rq: "request E ''GET'' (''/data/'' @ path) ?h None s = (a, s1)"
    by (cases "request E ''GET'' (''/data/'' @ path) ?h None s") auto
  with request_frame[of E "''GET''" "''/data/'' @ path" ?h None s]
  have "slept s1 = slept s" by simp
  with rq show ?thesis
    by (simp add: get_data_handler_dead split: sum.splits)
qed

lemma fetch_one_slept: "slept (snd (fetch_one E py_str path s)) = slept s"
  using get_data_slept[of E path JNull s]
  by (cases "get_data E path JNull s") (auto simp: fetch_one_def split: sum.splits)

lemma fetch_one_recorded: "recorded E py_str path (fst (fetch_one E py_str path s))"
  unfolding recorded_def
  by (rule exI[of _ s]) (cases "get_data E path JNull s"; auto simp: fetch_one_def split: sum.splits)

lemma fetch_batch_appends:
  "\<exists>new. fst (fetch_batch E py_str batch results s) = results @ new
         \<and> list_all2 (recorded E py_str) batch new
         \<and> slept (snd (fetch_batch E py_str batch results s)) = slept s"
proof (induction batch arbitrary: results s)
  case Nil
  then show ?case by simp
next
  case (Cons p ps)
  obtain r s1 where one: "fetch_one E py_str p s = (r, s1)"
    by (cases "fetch_one E py_str p s") auto
  from Cons.IH[of "results @ [r]" s1] obtain new where
    new: "fst (fetch_batch E py_str ps (results @ [r]) s1) = (results @ [r]) @ new"
         "list_all2 (recorded E py_str) ps new"
         "slept (snd (fetch_batch E py_str ps (results @ [r]) s1)) = slept s1"
    by blast
  from one fetch_one_recorded[of E py_str p s] fetch_one_slept[of E py_str p s]
  have "recorded E py_str p r" "slept s1 = slept s" by simp_all
  with one new show ?case
    by (intro exI[of _ "r # new"]) simp
qed

lemma after_group_cases:
  "(low_headroom paths b i s
      \<and> after_group E paths b i s
          = (Inr (), s\<lparr>world := pause E 5 (world s), slept := slept s @ [5]\<rparr>))
   \<or> (\<not> low_headroom paths b i s \<and> after_group E paths b i s = (Inr (), s))"
  by (simp add: after_group_def sleep_def)

lemma fetch_groups_step:
  assumes "0 < b" and "i < length paths"
  shows "fetch_groups E py_str paths b i results s =
           fetch_groups E py_str paths b (i + b)
             (fst (fetch_batch E py_str (take b (drop i paths)) results s))
             (snd (after_group E paths b i
                     (snd (fetch_batch E py_str (take b (drop i paths)) results s))))"
proof -
  obtain results1 s1 where fb:
    "fetch_batch E py_str (take b (drop i paths)) results s = (results1, s1)"
    by (cases "fetch_batch E py_str (take b (drop i paths)) results s") auto
  from after_group_cases[of paths b i s1 E] obtain s2 where
    ag: "after_group E paths b i s1 = (Inr (), s2)" by auto
  from assms fb ag show ?thesis
    by (subst fetch_groups.simps) simp
qed

lemma fetch_groups_done:
  "\<not> (0 < b \<and> i < length paths) \<Longrightarrow> fetch_groups E py_str paths b i results s = (Inr results, s)"
  by (subst fetch_groups.simps) auto

lemma fetch_groups_run:
  assumes "0 < b"
  shows "\<exists>new k. fst (fetch_groups E py_str paths b i results s) = Inr (results @ new)
           \<and> list_all2 (recorded E py_str) (drop i paths) new
           \<and> slept (snd (fetch_groups E py_str paths b i results s)) = slept s @ replicate k 5
           \<and> (k = 0 \<or> i + k * b < length paths)"
  using assms
proof (induction "length paths - i" arbitrary: i results s rule: less_induct)
  case less
  show ?case
  proof (cases "i < length paths")
    case False
    with fetch_groups_done[of b i paths E py_str results s]
    show ?thesis by (intro exI[of _ "[]"] exI[of _ 0]) simp
  next
    case True
    let ?batch = "take b (drop i paths)"
    let ?fb = "fetch_batch E py_str ?batch results s"
    let ?s2 = "snd (after_group E paths b i (snd ?fb))"
    from fetch_batch_appends[of E py_str ?batch results s] obtain new1 where
      n1: "fst ?fb = results @ new1" "list_all2 (recorded E py_str) ?batch new1"
          "slept (snd ?fb) = slept s"
      by blast
    from \<open>0 < b\<close> True have "length paths - (i + b) < length paths - i" by simp
    from less.hyps[OF this \<open>0 < b\<close>, of "fst ?fb" ?s2] obtain new2 k2 where
      n2: "fst (fetch_groups E py_str paths b (i + b) (fst ?fb) ?s2) = Inr (fst ?fb @ new2)"
          "list_all2 (recorded E py_str) (drop (i + b) paths) new2"
          "slept (snd (fetch_groups E py_str paths b (i + b) (fst ?fb) ?s2))
             = slept ?s2 @ replicate k2 5"
          "k2 = 0 \<or> i + b + k2 * b < length paths"
      by blast
    note step = fetch_groups_step[OF \<open>0 < b\<close> True, of E py_str results s]
    have parts: "drop i paths = ?batch @ drop (i + b) paths"
      by (metis add.commute append_take_drop_id drop_drop)
    have "list_all2 (recorded E py_str) (?batch @ drop (i + b) paths) (new1 @ new2)"
      using n1(2) n2(2) by (rule list_all2_appendI)
    with parts have all: "list_all2 (recorded E py_str) (drop i paths) (new1 @ new2)"
      by simp
    from after_group_cases[of paths b i "snd ?fb" E]
    consider (paused) "i + b < length paths" "slept ?s2 = slept s @ [5]"
      | (straight) "slept ?s2 = slept s"
      using n1(3) by (auto simp: low_headroom_def split: option.splits)
    then show ?thesis
    proof cases
      case paused
      with n2 have "slept (snd (fetch_groups E py_str paths b (i + b) (fst ?fb) ?s2))
                      = slept s @ replicate (Suc k2) 5"
        by simp
      moreover from paused(1) n2(4) have "i + Suc k2 * b < length paths"
        by auto
      ultimately show ?thesis
        using n1(1) n2(1) all unfolding step
        by (intro exI[of _ "new1 @ new2"] exI[of _ "Suc k2"]) simp
    next
      case straight
      with n2 have "slept (snd (fetch_groups E py_str paths b (i + b) (fst ?fb) ?s2))
                      = slept s @ replicate k2 5"
        by simp
      moreover from n2(4) have "k2 = 0 \<or> i + k2 * b < length paths"
        by auto
      ultimately show ?thesis
        using n1(1) n2(1) all unfolding step
        by (intro exI[of _ "new1 @ new2"] exI[of _ k2]) simp
    qed
  qed
qed



text \<open>
  Claim C7.  The statement that follows a group never raises, and it sleeps five seconds
  exactly when the remaining count of the rate limit is known and below 10 and the next
  start index \<open>i + batch_size\<close> is still inside the list, that is, when a further group
  remains; otherwise it leaves the state as it is, so nothing is slept after the last
  group.  A group is processed by the inner loop followed by that statement.  Over a whole
  run the durations added to the sleep log are all 5, and unless there is none their number
  \<open>k\<close> satisfies \<open>k * batch_size < len(paths)\<close>: there are fewer pauses than groups.
\<close>

theorem fetch_multiple_data_pauses_between_groups:
  "fst (after_group E paths b i s1) = Inr ()
   \<and> ((slept (snd (after_group E paths b i s1)) = slept s1 @ [5])
        = ((\<exists>r. rl_remaining (rate_limit (cl s1)) = Some r \<and> r < 10) \<and> i + b < length paths))
   \<and> (\<not> ((\<exists>r. rl_remaining (rate_limit (cl s1)) = Some r \<and> r < 10) \<and> i + b < length paths)
        \<longrightarrow> snd (after_group E paths b i s1) = s1)
   \<and> (0 < b \<and> i < length paths \<longrightarrow>
         fetch_groups E py_str paths b i results s =
           fetch_groups E py_str paths b (i + b)
             (fst (fetch_batch E py_str (take b (drop i paths)) results s))
             (snd (after_group E paths b i
                     (snd (fetch_batch E py_str (take b (drop i paths)) results s)))))
   \<and> (\<exists>k. slept (snd (fetch_multiple_data E py_str paths batch_size s))
               = slept s @ replicate k 5
            \<and> (k = 0 \<or> int k * batch_size < int (length paths)))"
proof (intro conjI)
  let ?low = "(\<exists>r. rl_remaining (rate_limit (cl s1)) = Some r \<and> r < 10) \<and> i + b < length paths"
  have low: "low_headroom paths b i s1 = ?low"
    by (auto simp: low_headroom_def split: option.splits)
  show "fst (after_group E paths b i s1) = Inr ()"
    using after_group_cases[of paths b i s1 E] by auto
  show "(slept (snd (after_group E paths b i s1)) = slept s1 @ [5]) = ?low"
    using after_group_cases[of paths b i s1 E] unfolding low by auto
  show "\<not> ?low \<longrightarrow> snd (after_group E paths b i s1) = s1"
    using after_group_cases[of paths b i s1 E] unfolding low by auto
  show "0 < b \<and> i < length paths \<longrightarrow>
         fetch_groups E py_str paths b i results s =
           fetch_groups E py_str paths b (i + b)
             (fst (fetch_batch E py_str (take b (drop i paths)) results s))
             (snd (after_group E paths b i
                     (snd (fetch_batch E py_str (take b (drop i paths)) results s))))"
    using fetch_groups_step[of b i paths E py_str results s] by blast
  show "\<exists>k. slept (snd (fetch_multiple_data E py_str paths batch_size s))
               = slept s @ replicate k 5
            \<and> (k = 0 \<or> int k * batch_size < int (length paths))"
  proof (cases "0 < batch_size")
    case False
    then show ?thesis
      by (intro exI[of _ 0]) (simp add: fetch_multiple_data_def)
  next
    case True
    then have b: "0 < nat batch_size" by simp
    from fetch_groups_run[OF b, of E py_str paths 0 "[]" s] obtain k where
      k: "slept (snd (fetch_groups E py_str paths (nat batch_size) 0 [] s))
            = slept s @ replicate k 5"
         "k = 0 \<or> k * nat batch_size < length paths"
      by auto
    from k(2) True have "k = 0 \<or> int k * batch_size < int (length paths)"
      by (metis int_nat_eq of_nat_less_iff of_nat_mult less_le not_less)
    with k(1) True show ?thesis
      by (intro exI[of _ k]) (simp add: fetch_multiple_data_def)
  qed
qed

theorem fetch_multiple_data_pauses_between_groups_witness:
  "(0::nat) < 2 \<and> (0::nat) < length [''p1'', ''p2'', ''p3'']
   \<and> rl_remaining (rate_limit (cl (snd (fetch_batch scripted str_of_exn [''p1'', ''p2''] []
            (start [reply 200 [(''X-RateLimit-Remaining'', ''6'')]
                      (Some (JObj [(''data'', JNum 1),
                                   (''metadata'', JObj [(''etag'', JStr ''e1'')])])),
                    reply 404 [(''X-RateLimit-Remaining'', ''5'')]
                      (Some (JObj [(''detail'', JStr ''Not found'')])),
                    reply 200 [(''X-RateLimit-Remaining'', ''4'')]
                      (Some (JObj [(''data'', JNum 3),
                                   (''metadata'', JObj [(''etag'', JStr ''e3'')])]))]))))) = Some 5
   \<and> slept (snd (fetch_multiple_data scripted str_of_exn [''p1'', ''p2'', ''p3''] 2
            (start [reply 200 [(''X-RateLimit-Remaining'', ''6'')]
                      (Some (JObj [(''data'', JNum 1),
                                   (''metadata'', JObj [(''etag'', JStr ''e1'')])])),
                    reply 404 [(''X-RateLimit-Remaining'', ''5'')]
                      (Some (JObj [(''detail'', JStr ''Not found'')])),
                    reply 200 [(''X-RateLimit-Remaining'', ''4'')]
                      (Some (JObj [(''data'', JNum 3),
                                   (''metadata'', JObj [(''etag'', JStr ''e3'')])]))])))
     = [5]
   \<and> rl_remaining (rate_limit (cl (snd (fetch_multiple_data scripted str_of_exn
            [''p1'', ''p2'', ''p3''] 2
            (start [reply 200 [(''X-RateLimit-Remaining'', ''6'')]
                      (Some (JObj [(''data'', JNum 1),
                                   (''metadata'', JObj [(''etag'', JStr ''e1'')])])),
                    reply 404 [(''X-RateLimit-Remaining'', ''5'')]
                      (Some (JObj [(''detail'', JStr ''Not found'')])),
                    reply 200 [(''X-RateLimit-Remaining'', ''4'')]
                      (Some (JObj [(''data'', JNum 3),
                                   (''metadata'', JObj [(''etag'', JStr ''e3'')])]))]))))) = Some 4"
proof -
  let ?s = "start [reply 200 [(''X-RateLimit-Remaining'', ''6'')]
                      (Some (JObj [(''data'', JNum 1),
                                   (''metadata'', JObj [(''etag'', JStr ''e1'')])])),
                    reply 404 [(''X-RateLimit-Remaining'', ''5'')]
                      (Some (JObj [(''detail'', JStr ''Not found'')])),
                    reply 200 [(''X-RateLimit-Remaining'', ''4'')]
                      (Some (JObj [(''data'', JNum 3),
                                   (''metadata'', JObj [(''etag'', JStr ''e3'')])]))]"
  have first: "rl_remaining (rate_limit (cl (snd (fetch_batch scripted str_of_exn
                 [''p1'', ''p2''] [] ?s)))) = Some 5"
    by code_simp
  have log: "slept (snd (fetch_multiple_data scripted str_of_exn [''p1'', ''p2'', ''p3''] 2 ?s))
               = [5]"
    by code_simp
  have last: "rl_remaining (rate_limit (cl (snd (fetch_multiple_data scripted str_of_exn
                 [''p1'', ''p2'', ''p3''] 2 ?s)))) = Some 4"
    by code_simp
  from fetch_multiple_data_pauses_between_groups
         [of scripted "[''p1'', ''p2'', ''p3'']" 2 0
             "snd (fetch_batch scripted str_of_exn [''p1'', ''p2''] [] ?s)"
             str_of_exn "[]" ?s 2]
       first log last
  show ?thesis by simp
qed

end
